theory Spec2Isabelle
  imports Main
begin

section \<open>JavaScript values and promises\<close>

text \<open>
  The facade of \<^verbatim>\<open>src/lib/LedgerLiveApiSdk.ts\<close> moves JSON payloads around and never
  computes on them, apart from the test \<^verbatim>\<open>params || {}\<close>. Values are modelled as a
  datatype closed under arrays and objects (an object is the list of its properties in
  insertion order). Numbers are restricted to integers plus \<^verbatim>\<open>NaN\<close>; \<open>JError m\<close> is
  the object built by \<^verbatim>\<open>new Error(m)\<close> and \<open>JTypeError\<close> the TypeError the runtime
  raises when a method is called on a value that does not have it.
\<close>

datatype jsval =
    JUndefined
  | JNull
  | JBool bool
  | JNum int
  | JNaN
  | JStr string
  | JArr "jsval list"
  | JObj "(string \<times> jsval) list"
  | JError string
  | JTypeError

fun truthy :: "jsval \<Rightarrow> bool" where
  "truthy JUndefined = False"
| "truthy JNull = False"
| "truthy (JBool b) = b"
| "truthy (JNum n) = (n \<noteq> 0)"
| "truthy JNaN = False"
| "truthy (JStr s) = (s \<noteq> [])"
| "truthy (JArr xs) = True"
| "truthy (JObj kvs) = True"
| "truthy (JError m) = True"
| "truthy JTypeError = True"

text \<open>The operator \<^verbatim>\<open>a || b\<close>.\<close>

definition js_or :: "jsval \<Rightarrow> jsval \<Rightarrow> jsval" where
  "js_or a b = (if truthy a then a else b)"

fun is_object :: "jsval \<Rightarrow> bool" where
  "is_object (JObj kvs) = True"
| "is_object v = False"

text \<open>
  An \<^verbatim>\<open>async\<close> method returns a promise. The model gives the state the promise ends in:
  resolved with a value, rejected with the thrown value, or never settled. A synchronous
  method either returns or throws.
\<close>

datatype 'a promise = Resolved 'a | Rejected jsval | Pending

datatype 'a outcome = Returns 'a | Throws jsval

text \<open>What the rest of an \<^verbatim>\<open>async\<close> body does with an awaited value.\<close>

fun await :: "'a promise \<Rightarrow> ('a \<Rightarrow> 'b promise) \<Rightarrow> 'b promise" where
  "await (Resolved v) k = k v"
| "await (Rejected e) k = Rejected e"
| "await Pending k = Pending"

section \<open>The collaborators\<close>

subsection \<open>Transport\<close>

text \<open>
  The interface \<^verbatim>\<open>Transport\<close> (\<^verbatim>\<open>connect\<close>, \<^verbatim>\<open>disconnect\<close>, \<^verbatim>\<open>onMessage\<close>,
  \<^verbatim>\<open>send\<close>) has no implementation in the repository. A transport object is its own
  state \<open>channel\<close> of an arbitrary type, the settable field \<open>onMessage\<close>, and the list
  \<open>calls\<close> of the method calls made on it so far, oldest first. The handler the facade
  installs is the closure \<^verbatim>\<open>(payload) => serverAndClient.receiveAndSend(payload)\<close>,
  identified by the session it captured.
\<close>

datatype MessageHandler = ReceiveAndSend nat | OtherHandler

datatype TransportCall = TConnect | TDisconnect | TSend jsval

record 't Transport =
  channel :: 't
  onMessage :: "MessageHandler option"
  calls :: "TransportCall list"

datatype response = Result jsval | ErrorResponse jsval

text \<open>
  The behaviour of a transport, of the host behind it and of the package that builds
  the rejection reasons is a parameter: \<open>transport_connect\<close> returns (\<open>None\<close>) or throws;
  \<open>transport_disconnect\<close> is awaited, so a throw and a rejected promise are the same
  \<open>Rejected\<close>; \<open>transport_send\<close> returns a promise; \<open>host_reply\<close> is the response the host
  eventually delivers to \<open>onMessage\<close> for an envelope that went out, if any;
  \<open>rpc_send_failure\<close> and \<open>rpc_response_error\<close> are the reasons a session rejects a
  request with, given the error a send failed with and the error a response carries.
\<close>

record 't host =
  transport_connect :: "'t \<Rightarrow> jsval option \<times> 't"
  transport_disconnect :: "'t \<Rightarrow> unit promise \<times> 't"
  transport_send :: "jsval \<Rightarrow> 't \<Rightarrow> unit promise \<times> 't"
  host_reply :: "jsval \<Rightarrow> 't \<Rightarrow> response option"
  rpc_send_failure :: "jsval \<Rightarrow> jsval"
  rpc_response_error :: "jsval \<Rightarrow> jsval"

subsection \<open>Serializers\<close>

text \<open>
  Modelled from the spec: the module \<^verbatim>\<open>./serializers\<close> is imported by the facade and is
  not part of the sources at hand. The specification describes its members as pure
  functions between wire values and domain values; they are parameters here, over
  arbitrary types of accounts, transactions and signed transactions.
\<close>

record ('acc, 'tx, 'stx) serializers =
  deserializeAccount :: "jsval \<Rightarrow> 'acc"
  serializeTransaction :: "'tx \<Rightarrow> jsval"
  deserializeSignedTransaction :: "jsval \<Rightarrow> 'stx"
  serializeSignedTransaction :: "'stx \<Rightarrow> jsval"

subsection \<open>Logger\<close>

text \<open>
  Modelled from the spec: the class \<^verbatim>\<open>Logger\<close> of \<^verbatim>\<open>./logger\<close> is not part of the
  sources at hand. The specification makes it a leveled logger (error, warn, log) that
  never throws and never alters control flow: a logger is the list of the calls it has
  received, oldest first. An argument is a value or the transport object itself.
\<close>

datatype level = LevelError | LevelWarn | LevelLog

datatype logarg = Val jsval | TransportRef

type_synonym LogEntry = "level \<times> string \<times> logarg list"

section \<open>The facade\<close>

text \<open>
  A session is the \<^verbatim>\<open>JSONRPCServerAndClient\<close> object: \<open>ident\<close> is its identity as an
  object and \<open>lastId\<close> the last call identifier its client has given out.

  The class \<^verbatim>\<open>LedgerLiveApi\<close> has the fields \<open>transport\<close>, \<open>logger\<close> and the optional
  \<open>serverAndClient\<close>. \<open>sessionsCreated\<close> is not a field of the class: it counts the
  sessions this facade has constructed, so that \<^verbatim>\<open>new JSONRPCServerAndClient\<close> has an
  identity no earlier session has.
\<close>

record JSONRPCServerAndClient =
  ident :: nat
  lastId :: nat

record 't LedgerLiveApi =
  transport :: "'t Transport"
  logger :: "LogEntry list"
  serverAndClient :: "JSONRPCServerAndClient option"
  sessionsCreated :: nat

definition constructor :: "'t Transport \<Rightarrow> LogEntry list \<Rightarrow> 't LedgerLiveApi" where
  "constructor t lg =
     \<lparr>transport = t, logger = lg, serverAndClient = None, sessionsCreated = 0\<rparr>"

definition logger_call :: "level \<Rightarrow> string \<Rightarrow> logarg list \<Rightarrow> 't LedgerLiveApi \<Rightarrow> 't LedgerLiveApi" where
  "logger_call lv msg args w = w\<lparr>logger := logger w @ [(lv, msg, args)]\<rparr>"

text \<open>A method call on the transport: the call is recorded and the channel moves on.\<close>

definition transport_call :: "TransportCall \<Rightarrow> 't \<Rightarrow> 't LedgerLiveApi \<Rightarrow> 't LedgerLiveApi" where
  "transport_call c ch w =
     w\<lparr>transport := (transport w)\<lparr>channel := ch, calls := calls (transport w) @ [c]\<rparr>\<rparr>"

subsection \<open>The session's request\<close>

text \<open>
  The JSON-RPC request envelope, and the state a request ends in once its envelope has
  gone out: pending while no response arrives, resolved with the result of a response,
  rejected for an error-shaped response.
\<close>

definition envelope :: "nat \<Rightarrow> string \<Rightarrow> jsval \<Rightarrow> jsval" where
  "envelope i method params =
     JObj [(''jsonrpc'', JStr ''2.0''), (''id'', JNum (int i)),
           (''method'', JStr method), (''params'', params)]"

definition settle :: "'t host \<Rightarrow> response option \<Rightarrow> jsval promise" where
  "settle h r = (case r of
       None \<Rightarrow> Pending
     | Some (Result v) \<Rightarrow> Resolved v
     | Some (ErrorResponse e) \<Rightarrow> Rejected (rpc_response_error h e))"

text \<open>
  Modelled from the spec: \<^verbatim>\<open>JSONRPCServerAndClient.request\<close> belongs to the package
  \<^verbatim>\<open>json-rpc-2.0\<close>. Following section 4.1 of the specification, a request takes the next
  call identifier, sends the envelope (id, method, params) through the send function the
  client was built with, which is \<^verbatim>\<open>(payload) => this.transport.send(payload)\<close>, and
  settles when the correlated response arrives: a send failure rejects it, an
  error-shaped response rejects it, a result resolves it. A response reaches the session
  only through the handler that captured it, and a send that never settles leaves the
  request pending.
\<close>

definition JSONRPCServerAndClient_request ::
  "'t host \<Rightarrow> string \<Rightarrow> jsval \<Rightarrow> jsval \<Rightarrow> JSONRPCServerAndClient \<Rightarrow> 't LedgerLiveApi
     \<Rightarrow> jsval promise \<times> 't LedgerLiveApi" where
  "JSONRPCServerAndClient_request h method params clientParams s w =
     (let i = lastId s + 1;
          payload = envelope i method params;
          sent = transport_send h payload (channel (transport w));
          w1 = transport_call (TSend payload) (snd sent) w;
          w2 = w1\<lparr>serverAndClient := Some (s\<lparr>lastId := i\<rparr>)\<rparr>
      in (case fst sent of
            Rejected e \<Rightarrow> Rejected (rpc_send_failure h e)
          | Resolved u \<Rightarrow>
              if onMessage (transport w) = Some (ReceiveAndSend (ident s))
              then settle h (host_reply h payload (snd sent))
              else Pending
          | Pending \<Rightarrow> Pending,
          w2))"

subsection \<open>Lines 48 to 87: the request wrapper and the connection lifecycle\<close>

text \<open>The private method \<^verbatim>\<open>_request\<close> (an identifier cannot start with an underscore).\<close>

definition private_request ::
  "'t host \<Rightarrow> string \<Rightarrow> jsval \<Rightarrow> jsval \<Rightarrow> 't LedgerLiveApi \<Rightarrow> jsval promise \<times> 't LedgerLiveApi" where
  "private_request h method params clientParams w =
     (case serverAndClient w of
        None \<Rightarrow>
          (Rejected (JError ''Ledger Live API not connected''),
           logger_call LevelError ''not connected'' [Val (JStr method)] w)
      | Some s \<Rightarrow>
          (let w1 = logger_call LevelLog (''request - '' @ method) [Val params, Val clientParams] w;
               rq = JSONRPCServerAndClient_request h method params clientParams s w1
           in (case fst rq of
                 Resolved result \<Rightarrow>
                   (Resolved result,
                    logger_call LevelLog (''response - '' @ method)
                      [Val params, Val clientParams] (snd rq))
               | Rejected error \<Rightarrow>
                   (Rejected error,
                    logger_call LevelWarn (''error - '' @ method)
                      [Val params, Val clientParams] (snd rq))
               | Pending \<Rightarrow> (Pending, snd rq))))"

definition connect :: "'t host \<Rightarrow> 't LedgerLiveApi \<Rightarrow> unit outcome \<times> 't LedgerLiveApi" where
  "connect h w =
     (let session = \<lparr>ident = sessionsCreated w, lastId = 0\<rparr>;
          w1 = w\<lparr>sessionsCreated := sessionsCreated w + 1\<rparr>;
          w2 = w1\<lparr>transport := (transport w1)\<lparr>onMessage := Some (ReceiveAndSend (ident session))\<rparr>\<rparr>;
          connected = transport_connect h (channel (transport w2));
          w3 = transport_call TConnect (snd connected) w2
      in (case fst connected of
            Some e \<Rightarrow> (Throws e, w3)
          | None \<Rightarrow>
              (Returns (),
               logger_call LevelLog ''connected'' [TransportRef]
                 (w3\<lparr>serverAndClient := Some session\<rparr>))))"

definition disconnect :: "'t host \<Rightarrow> 't LedgerLiveApi \<Rightarrow> unit promise \<times> 't LedgerLiveApi" where
  "disconnect h w =
     (let w1 = w\<lparr>serverAndClient := None\<rparr>;
          disconnected = transport_disconnect h (channel (transport w1));
          w2 = transport_call TDisconnect (snd disconnected) w1
      in (case fst disconnected of
            Resolved u \<Rightarrow> (Resolved (), logger_call LevelLog ''disconnected'' [TransportRef] w2)
          | Rejected e \<Rightarrow> (Rejected e, w2)
          | Pending \<Rightarrow> (Pending, w2)))"

subsection \<open>Lines 97 to 164: the operations that reach the host\<close>

text \<open>
  Each operation calls \<^verbatim>\<open>_request\<close> with two arguments, so that \<^verbatim>\<open>clientParams\<close> is
  \<^verbatim>\<open>undefined\<close>. A missing argument is \<open>JUndefined\<close>. \<open>array_map\<close> is
  \<^verbatim>\<open>rawAccounts.map(f)\<close>: the elements in order on an array, a TypeError on a value that
  has no such method.
\<close>

fun array_map :: "(jsval \<Rightarrow> 'a) \<Rightarrow> jsval \<Rightarrow> 'a list promise" where
  "array_map f (JArr xs) = Resolved (map f xs)"
| "array_map f v = Rejected JTypeError"

definition requestAccount ::
  "'t host \<Rightarrow> ('acc, 'tx, 'stx) serializers \<Rightarrow> jsval \<Rightarrow> 't LedgerLiveApi
     \<Rightarrow> 'acc promise \<times> 't LedgerLiveApi" where
  "requestAccount h sz params w =
     (let rq = private_request h ''account.request'' (js_or params (JObj [])) JUndefined w
      in (await (fst rq) (\<lambda>rawAccount. Resolved (deserializeAccount sz rawAccount)), snd rq))"

definition listAccounts ::
  "'t host \<Rightarrow> ('acc, 'tx, 'stx) serializers \<Rightarrow> 't LedgerLiveApi
     \<Rightarrow> 'acc list promise \<times> 't LedgerLiveApi" where
  "listAccounts h sz w =
     (let rq = private_request h ''account.list'' JUndefined JUndefined w
      in (await (fst rq) (\<lambda>rawAccounts. array_map (deserializeAccount sz) rawAccounts), snd rq))"

definition listCurrencies ::
  "'t host \<Rightarrow> jsval \<Rightarrow> 't LedgerLiveApi \<Rightarrow> jsval promise \<times> 't LedgerLiveApi" where
  "listCurrencies h params w =
     private_request h ''currency.list'' (js_or params (JObj [])) JUndefined w"

definition receive ::
  "'t host \<Rightarrow> string \<Rightarrow> 't LedgerLiveApi \<Rightarrow> jsval promise \<times> 't LedgerLiveApi" where
  "receive h accountId w =
     private_request h ''account.receive'' (JObj [(''accountId'', JStr accountId)]) JUndefined w"

definition signTransaction ::
  "'t host \<Rightarrow> ('acc, 'tx, 'stx) serializers \<Rightarrow> string \<Rightarrow> 'tx \<Rightarrow> jsval \<Rightarrow> 't LedgerLiveApi
     \<Rightarrow> 'stx promise \<times> 't LedgerLiveApi" where
  "signTransaction h sz accountId transaction params w =
     (let rq = private_request h ''transaction.sign''
                 (JObj [(''accountId'', JStr accountId),
                        (''transaction'', serializeTransaction sz transaction),
                        (''params'', js_or params (JObj []))])
                 JUndefined w
      in (await (fst rq)
            (\<lambda>rawSignedTransaction.
                Resolved (deserializeSignedTransaction sz rawSignedTransaction)),
          snd rq))"

definition broadcastSignedTransaction ::
  "'t host \<Rightarrow> ('acc, 'tx, 'stx) serializers \<Rightarrow> string \<Rightarrow> 'stx \<Rightarrow> 't LedgerLiveApi
     \<Rightarrow> jsval promise \<times> 't LedgerLiveApi" where
  "broadcastSignedTransaction h sz accountId signedTransaction w =
     private_request h ''transaction.broadcast''
       (JObj [(''accountId'', JStr accountId),
              (''signedTransaction'', serializeSignedTransaction sz signedTransaction)])
       JUndefined w"

subsection \<open>Lines 173 to 245: the placeholder operations\<close>

text \<open>
  The parameter and result types are those of \<^verbatim>\<open>LedgerLiveApiSdk.types\<close>. The two
  fields \<^verbatim>\<open>r\<close> and \<^verbatim>\<open>s\<close> of a signature are named \<open>sig_r\<close> and \<open>sig_s\<close>, a buffer is
  the list of its bytes, and a device bridge is of an arbitrary type, its module not
  being part of the sources at hand.
\<close>

datatype ExchangeType = Swap | Buy | Fund

datatype FeesLevel = Low | Standard | High

datatype DeviceModel = Blue | NanoS | NanoX

record ExchangePayload =
  email :: string
  accountName :: string
  inCurrency :: string
  inAmount :: string
  inAddress :: string
  outCurrency :: "string option"
  outAmount :: "string option"
  outAddress :: "string option"
  nonce :: string

record EcdsaSignature =
  sig_r :: "nat list"
  sig_s :: "nat list"

record EstimatedFees =
  low :: int
  standard :: int
  high :: int

record ApplicationDetails =
  name :: string
  version :: string

record DeviceDetails =
  modelId :: DeviceModel
  firmware_version :: string

definition estimateTransactionFees ::
  "string \<Rightarrow> 'tx \<Rightarrow> 't LedgerLiveApi \<Rightarrow> EstimatedFees promise \<times> 't LedgerLiveApi" where
  "estimateTransactionFees accountId transaction w =
     (Rejected (JError ''Function is not implemented yet''), w)"

definition synchronizeAccount ::
  "string \<Rightarrow> 't LedgerLiveApi \<Rightarrow> 'acc promise \<times> 't LedgerLiveApi" where
  "synchronizeAccount accountId w = (Rejected (JError ''Function is not implemented yet''), w)"

definition initExchange ::
  "ExchangeType \<Rightarrow> string \<Rightarrow> 't LedgerLiveApi \<Rightarrow> string promise \<times> 't LedgerLiveApi" where
  "initExchange exchangeType partnerName w =
     (Rejected (JError ''Function is not implemented yet''), w)"

definition completeExchange ::
  "ExchangePayload \<Rightarrow> EcdsaSignature \<Rightarrow> FeesLevel \<Rightarrow> 't LedgerLiveApi
     \<Rightarrow> unit promise \<times> 't LedgerLiveApi" where
  "completeExchange exchangePayload payloadSignature txFeesLevel w =
     (Rejected (JError ''Function is not implemented yet''), w)"

definition getDeviceInfo :: "'t LedgerLiveApi \<Rightarrow> DeviceDetails promise \<times> 't LedgerLiveApi" where
  "getDeviceInfo w = (Rejected (JError ''Function is not implemented yet''), w)"

definition listApps ::
  "'t LedgerLiveApi \<Rightarrow> ApplicationDetails list promise \<times> 't LedgerLiveApi" where
  "listApps w = (Rejected (JError ''Function is not implemented yet''), w)"

definition bridgeApp ::
  "string \<Rightarrow> ('bridge \<Rightarrow> 'r promise) \<Rightarrow> 't LedgerLiveApi \<Rightarrow> 'r promise \<times> 't LedgerLiveApi" where
  "bridgeApp appName handler w = (Rejected (JError ''Function is not implemented yet''), w)"

definition bridgeDashboard ::
  "('bridge \<Rightarrow> 'r promise) \<Rightarrow> 't LedgerLiveApi \<Rightarrow> 'r promise \<times> 't LedgerLiveApi" where
  "bridgeDashboard handler w = (Rejected (JError ''Function is not implemented yet''), w)"

subsection \<open>Sessions a facade can hold\<close>

text \<open>
  Every session a facade holds is one it constructed: its identity is below the count
  of sessions constructed so far.
\<close>

definition session_known :: "'t LedgerLiveApi \<Rightarrow> bool" where
  "session_known w =
     (case serverAndClient w of None \<Rightarrow> True | Some s \<Rightarrow> ident s < sessionsCreated w)"

text \<open>
  The host answers the request for \<open>method\<close> with \<open>params\<close> issued in state \<open>w\<close> with
  the response \<open>r\<close>: the facade holds a session, the transport's handler is the one that
  captured this session, the send of the envelope resolves, and \<open>r\<close> is what the host
  delivers for it.
\<close>

definition host_answers ::
  "'t host \<Rightarrow> 't LedgerLiveApi \<Rightarrow> string \<Rightarrow> jsval \<Rightarrow> response \<Rightarrow> bool" where
  "host_answers h w method params r =
     (case serverAndClient w of
        None \<Rightarrow> False
      | Some s \<Rightarrow>
          onMessage (transport w) = Some (ReceiveAndSend (ident s)) \<and>
          (let payload = envelope (lastId s + 1) method params;
               sent = transport_send h payload (channel (transport w))
           in fst sent = Resolved () \<and> host_reply h payload (snd sent) = Some r))"

subsection \<open>A mock transport, host and serializers\<close>

text \<open>
  Concrete collaborators on which the operations are run: a transport whose channel
  counts the payloads sent, a host with fixed behaviour (what \<^verbatim>\<open>connect\<close> throws, how
  \<^verbatim>\<open>disconnect\<close> and \<^verbatim>\<open>send\<close> settle, what the host answers), rejection reasons that
  are the errors themselves, and serializers that tag a wire value.
\<close>

definition mock_transport :: "nat Transport" where
  "mock_transport = \<lparr>channel = 0, onMessage = None, calls = []\<rparr>"

definition mock_host ::
  "jsval option \<Rightarrow> unit promise \<Rightarrow> unit promise \<Rightarrow> response option \<Rightarrow> nat host" where
  "mock_host c d s r =
     \<lparr>transport_connect = (\<lambda>n. (c, n)),
      transport_disconnect = (\<lambda>n. (d, n)),
      transport_send = (\<lambda>payload n. (s, Suc n)),
      host_reply = (\<lambda>payload n. r),
      rpc_send_failure = (\<lambda>e. e),
      rpc_response_error = (\<lambda>e. e)\<rparr>"

definition mock_serializers :: "(string \<times> jsval, string, string \<times> jsval) serializers" where
  "mock_serializers =
     \<lparr>deserializeAccount = (\<lambda>raw. (''Account'', raw)),
      serializeTransaction = (\<lambda>recipient. JObj [(''recipient'', JStr recipient)]),
      deserializeSignedTransaction = (\<lambda>raw. (''SignedTransaction'', raw)),
      serializeSignedTransaction = (\<lambda>signed. snd signed)\<rparr>"

definition mock_api :: "nat LedgerLiveApi" where
  "mock_api = constructor mock_transport []"

text \<open>The mock facade after a first successful \<open>connect\<close>.\<close>

definition mock_connected :: "nat LedgerLiveApi" where
  "mock_connected = snd (connect (mock_host None (Resolved ()) (Resolved ()) None) mock_api)"

section \<open>Not connected\<close>

lemma private_request_None:
  "serverAndClient w = None \<Longrightarrow>
     private_request h method params clientParams w =
       (Rejected (JError ''Ledger Live API not connected''),
        logger_call LevelError ''not connected'' [Val (JStr method)] w)"
  by (simp add: private_request_def)

lemma logger_call_fields [simp]:
  "transport (logger_call lv msg args w) = transport w"
  "serverAndClient (logger_call lv msg args w) = serverAndClient w"
  "sessionsCreated (logger_call lv msg args w) = sessionsCreated w"
  "logger (logger_call lv msg args w) = logger w @ [(lv, msg, args)]"
  by (simp_all add: logger_call_def)

lemma transport_call_fields [simp]:
  "calls (transport (transport_call c ch w)) = calls (transport w) @ [c]"
  "channel (transport (transport_call c ch w)) = ch"
  "onMessage (transport (transport_call c ch w)) = onMessage (transport w)"
  "serverAndClient (transport_call c ch w) = serverAndClient w"
  "sessionsCreated (transport_call c ch w) = sessionsCreated w"
  "logger (transport_call c ch w) = logger w"
  by (simp_all add: transport_call_def)

text \<open>
  C1. For every method name and parameters, the request wrapper called while no session
  exists is rejected with the error "Ledger Live API not connected" without any call on
  the transport: the transport object, and so the list of calls made on it, is what it
  was, no session appears, and the only effect is one entry at level error in the
  logger. This is the state a new facade is in, whatever transport and logger it is given.
\<close>

theorem invoke_not_connected:
  "(serverAndClient w = None \<longrightarrow>
      fst (private_request h method params clientParams w)
        = Rejected (JError ''Ledger Live API not connected'')
      \<and> transport (snd (private_request h method params clientParams w)) = transport w
      \<and> serverAndClient (snd (private_request h method params clientParams w)) = None
      \<and> logger (snd (private_request h method params clientParams w))
          = logger w @ [(LevelError, ''not connected'', [Val (JStr method)])])
   \<and> fst (private_request h method params clientParams (constructor t lg))
        = Rejected (JError ''Ledger Live API not connected'')
   \<and> calls (transport (snd (private_request h method params clientParams (constructor t lg))))
        = calls t"
  by (simp add: private_request_None constructor_def)

theorem invoke_not_connected_witness:
  "serverAndClient mock_api = None
   \<and> fst (private_request (mock_host None (Resolved ()) (Resolved ()) None)
            ''account.list'' JUndefined JUndefined mock_api)
       = Rejected (JError ''Ledger Live API not connected'')
   \<and> calls (transport (snd (private_request (mock_host None (Resolved ()) (Resolved ()) None)
            ''account.list'' JUndefined JUndefined mock_api))) = []
   \<and> logger (snd (private_request (mock_host None (Resolved ()) (Resolved ()) None)
            ''account.list'' JUndefined JUndefined mock_api))
       = [(LevelError, ''not connected'', [Val (JStr ''account.list'')])]"
  using invoke_not_connected [of mock_api "mock_host None (Resolved ()) (Resolved ()) None"
      "''account.list''" JUndefined JUndefined mock_transport "[]"]
  by (simp add: mock_api_def constructor_def mock_transport_def)

section \<open>What a request does to the facade\<close>

lemma request_calls:
  "calls (transport (snd (JSONRPCServerAndClient_request h m p c s w)))
     = calls (transport w) @ [TSend (envelope (lastId s + 1) m p)]"
  by (simp add: JSONRPCServerAndClient_request_def Let_def)

lemma request_fields:
  "logger (snd (JSONRPCServerAndClient_request h m p c s w)) = logger w"
  "serverAndClient (snd (JSONRPCServerAndClient_request h m p c s w))
     = Some (s\<lparr>lastId := lastId s + 1\<rparr>)"
  "sessionsCreated (snd (JSONRPCServerAndClient_request h m p c s w)) = sessionsCreated w"
  "onMessage (transport (snd (JSONRPCServerAndClient_request h m p c s w)))
     = onMessage (transport w)"
  by (simp_all add: JSONRPCServerAndClient_request_def Let_def)

lemma request_send_rejected:
  "fst (transport_send h (envelope (lastId s + 1) m p) (channel (transport w))) = Rejected e
     \<Longrightarrow> fst (JSONRPCServerAndClient_request h m p c s w) = Rejected (rpc_send_failure h e)"
  by (simp add: JSONRPCServerAndClient_request_def Let_def)

lemma request_replied:
  "fst (transport_send h (envelope (lastId s + 1) m p) (channel (transport w))) = Resolved ()
     \<Longrightarrow> onMessage (transport w) = Some (ReceiveAndSend (ident s))
     \<Longrightarrow> fst (JSONRPCServerAndClient_request h m p c s w)
          = settle h (host_reply h (envelope (lastId s + 1) m p)
              (snd (transport_send h (envelope (lastId s + 1) m p) (channel (transport w)))))"
  by (simp add: JSONRPCServerAndClient_request_def Let_def split: promise.splits)

lemma private_request_Some:
  "serverAndClient w = Some s \<Longrightarrow>
     private_request h m p c w =
       (let rq = JSONRPCServerAndClient_request h m p c s
                   (logger_call LevelLog (''request - '' @ m) [Val p, Val c] w)
        in (case fst rq of
              Resolved result \<Rightarrow>
                (Resolved result,
                 logger_call LevelLog (''response - '' @ m) [Val p, Val c] (snd rq))
            | Rejected error \<Rightarrow>
                (Rejected error,
                 logger_call LevelWarn (''error - '' @ m) [Val p, Val c] (snd rq))
            | Pending \<Rightarrow> (Pending, snd rq)))"
  by (simp add: private_request_def Let_def)

lemma private_request_calls:
  "serverAndClient w = Some s \<Longrightarrow>
     calls (transport (snd (private_request h m p c w)))
       = calls (transport w) @ [TSend (envelope (lastId s + 1) m p)]"
  by (simp add: private_request_Some Let_def request_calls split: promise.splits)

lemma private_request_None_calls:
  "serverAndClient w = None \<Longrightarrow>
     transport (snd (private_request h m p c w)) = transport w"
  by (simp add: private_request_None)

lemma disconnect_fields:
  "serverAndClient (snd (disconnect h w)) = None"
  "calls (transport (snd (disconnect h w))) = calls (transport w) @ [TDisconnect]"
  "fst (disconnect h w) = fst (transport_disconnect h (channel (transport w)))"
  "onMessage (transport (snd (disconnect h w))) = onMessage (transport w)"
  "sessionsCreated (snd (disconnect h w)) = sessionsCreated w"
  by (simp_all add: disconnect_def Let_def split: promise.splits)

section \<open>After disconnect\<close>

text \<open>
  C3. Whatever state the facade is in and however the transport's own disconnect ends
  (resolved, rejected or never settled), after \<open>disconnect\<close> the session reference is
  gone, so it was dropped before the transport's disconnect was awaited; the transport
  has received exactly one more call, its disconnect. From then on the request wrapper,
  and each of the six operations built on it, is rejected with the error "Ledger Live
  API not connected" and leaves the transport object, and so the list of calls made on
  it, as it was.
\<close>

theorem disconnect_then_invoke:
  "serverAndClient (snd (disconnect h w)) = None
   \<and> fst (private_request h method params clientParams (snd (disconnect h w)))
       = Rejected (JError ''Ledger Live API not connected'')
   \<and> transport (snd (private_request h method params clientParams (snd (disconnect h w))))
       = transport (snd (disconnect h w))
   \<and> fst (requestAccount h sz params (snd (disconnect h w)))
       = Rejected (JError ''Ledger Live API not connected'')
   \<and> transport (snd (requestAccount h sz params (snd (disconnect h w))))
       = transport (snd (disconnect h w))
   \<and> fst (listAccounts h sz (snd (disconnect h w)))
       = Rejected (JError ''Ledger Live API not connected'')
   \<and> transport (snd (listAccounts h sz (snd (disconnect h w))))
       = transport (snd (disconnect h w))
   \<and> fst (listCurrencies h params (snd (disconnect h w)))
       = Rejected (JError ''Ledger Live API not connected'')
   \<and> transport (snd (listCurrencies h params (snd (disconnect h w))))
       = transport (snd (disconnect h w))
   \<and> fst (receive h accountId (snd (disconnect h w)))
       = Rejected (JError ''Ledger Live API not connected'')
   \<and> transport (snd (receive h accountId (snd (disconnect h w))))
       = transport (snd (disconnect h w))
   \<and> fst (signTransaction h sz accountId transaction params (snd (disconnect h w)))
       = Rejected (JError ''Ledger Live API not connected'')
   \<and> transport (snd (signTransaction h sz accountId transaction params (snd (disconnect h w))))
       = transport (snd (disconnect h w))
   \<and> fst (broadcastSignedTransaction h sz accountId signedTransaction (snd (disconnect h w)))
       = Rejected (JError ''Ledger Live API not connected'')
   \<and> transport (snd (broadcastSignedTransaction h sz accountId signedTransaction
                       (snd (disconnect h w))))
       = transport (snd (disconnect h w))
   \<and> calls (transport (snd (disconnect h w))) = calls (transport w) @ [TDisconnect]"
  by (simp add: disconnect_fields private_request_None requestAccount_def listAccounts_def
      listCurrencies_def receive_def signTransaction_def broadcastSignedTransaction_def)

section \<open>Settlement of a request\<close>

lemma host_answers_request:
  "host_answers h w m p r \<Longrightarrow> serverAndClient w = Some s \<Longrightarrow>
     fst (JSONRPCServerAndClient_request h m p c s (logger_call lv msg args w)) = settle h (Some r)"
  by (auto simp add: host_answers_def JSONRPCServerAndClient_request_def Let_def
      split: promise.splits)

lemma private_request_rejected:
  "serverAndClient w = Some s \<Longrightarrow>
   fst (JSONRPCServerAndClient_request h m p c s
          (logger_call LevelLog (''request - '' @ m) [Val p, Val c] w)) = Rejected e \<Longrightarrow>
   fst (private_request h m p c w) = Rejected e \<and>
   logger (snd (private_request h m p c w))
     = logger w @ [(LevelLog, ''request - '' @ m, [Val p, Val c]),
                   (LevelWarn, ''error - '' @ m, [Val p, Val c])]"
  by (simp add: private_request_Some Let_def request_fields)

lemma private_request_resolved:
  "serverAndClient w = Some s \<Longrightarrow>
   fst (JSONRPCServerAndClient_request h m p c s
          (logger_call LevelLog (''request - '' @ m) [Val p, Val c] w)) = Resolved v \<Longrightarrow>
   fst (private_request h m p c w) = Resolved v \<and>
   logger (snd (private_request h m p c w))
     = logger w @ [(LevelLog, ''request - '' @ m, [Val p, Val c]),
                   (LevelLog, ''response - '' @ m, [Val p, Val c])]"
  by (simp add: private_request_Some Let_def request_fields)

lemma host_answers_connected:
  "host_answers h w m p r \<Longrightarrow> \<exists>s. serverAndClient w = Some s"
  by (simp add: host_answers_def split: option.splits)

lemma private_request_result:
  assumes "host_answers h w m p (Result v)"
  shows "fst (private_request h m p c w) = Resolved v"
proof -
  from assms obtain s where s: "serverAndClient w = Some s"
    using host_answers_connected by blast
  have "fst (JSONRPCServerAndClient_request h m p c s
          (logger_call LevelLog (''request - '' @ m) [Val p, Val c] w)) = Resolved v"
    using host_answers_request [OF assms s] by (simp add: settle_def)
  with s show ?thesis
    using private_request_resolved by blast
qed

lemma private_request_error:
  assumes "host_answers h w m p (ErrorResponse e)"
  shows "fst (private_request h m p c w) = Rejected (rpc_response_error h e)"
proof -
  from assms obtain s where s: "serverAndClient w = Some s"
    using host_answers_connected by blast
  have "fst (JSONRPCServerAndClient_request h m p c s
          (logger_call LevelLog (''request - '' @ m) [Val p, Val c] w))
        = Rejected (rpc_response_error h e)"
    using host_answers_request [OF assms s] by (simp add: settle_def)
  with s show ?thesis
    using private_request_rejected by blast
qed

text \<open>
  C7. While a session exists, for every method and parameters: when the session's
  request is rejected with an error, the request wrapper is rejected with that same
  error, and the logger has received the request entry followed by one entry at level
  warn; when the request resolves with a payload, the wrapper resolves with that payload
  and the second entry is the response entry at level log. The two causes of a rejection
  are covered: when a send of the transport is rejected, and when the host answers with
  an error-shaped response, the wrapper is rejected with the very reason the session
  built for it; a result of the host resolves it.
\<close>

theorem invoke_rethrows:
  assumes "serverAndClient w = Some s"
  shows
    "(\<forall>e. fst (JSONRPCServerAndClient_request h method params clientParams s
               (logger_call LevelLog (''request - '' @ method) [Val params, Val clientParams] w))
            = Rejected e \<longrightarrow>
          fst (private_request h method params clientParams w) = Rejected e \<and>
          logger (snd (private_request h method params clientParams w))
            = logger w @ [(LevelLog, ''request - '' @ method, [Val params, Val clientParams]),
                          (LevelWarn, ''error - '' @ method, [Val params, Val clientParams])])
     \<and> (\<forall>v. fst (JSONRPCServerAndClient_request h method params clientParams s
               (logger_call LevelLog (''request - '' @ method) [Val params, Val clientParams] w))
            = Resolved v \<longrightarrow>
          fst (private_request h method params clientParams w) = Resolved v \<and>
          logger (snd (private_request h method params clientParams w))
            = logger w @ [(LevelLog, ''request - '' @ method, [Val params, Val clientParams]),
                          (LevelLog, ''response - '' @ method, [Val params, Val clientParams])])
     \<and> (\<forall>e. fst (transport_send h (envelope (lastId s + 1) method params)
                    (channel (transport w))) = Rejected e \<longrightarrow>
          fst (private_request h method params clientParams w) = Rejected (rpc_send_failure h e))
     \<and> (\<forall>e. host_answers h w method params (ErrorResponse e) \<longrightarrow>
          fst (private_request h method params clientParams w)
            = Rejected (rpc_response_error h e))
     \<and> (\<forall>v. host_answers h w method params (Result v) \<longrightarrow>
          fst (private_request h method params clientParams w) = Resolved v)"
proof (intro conjI allI impI)
  fix e
  assume "fst (transport_send h (envelope (lastId s + 1) method params)
                 (channel (transport w))) = Rejected e"
  then have "fst (JSONRPCServerAndClient_request h method params clientParams s
               (logger_call LevelLog (''request - '' @ method) [Val params, Val clientParams] w))
             = Rejected (rpc_send_failure h e)"
    by (simp add: request_send_rejected)
  with assms show "fst (private_request h method params clientParams w)
                     = Rejected (rpc_send_failure h e)"
    using private_request_rejected by blast
qed (use assms in \<open>simp_all add: private_request_rejected private_request_resolved
      private_request_error private_request_result\<close>)

text \<open>Evaluation of the mock collaborators.\<close>

lemma mock_connected_eq:
  "mock_connected =
     \<lparr>transport = \<lparr>channel = 0, onMessage = Some (ReceiveAndSend 0), calls = [TConnect]\<rparr>,
      logger = [(LevelLog, ''connected'', [TransportRef])],
      serverAndClient = Some \<lparr>ident = 0, lastId = 0\<rparr>,
      sessionsCreated = 1\<rparr>"
  by (simp add: mock_connected_def connect_def mock_host_def mock_api_def constructor_def
      mock_transport_def transport_call_def logger_call_def Let_def)

lemmas mock_eval =
  mock_connected_eq mock_host_def mock_api_def constructor_def mock_transport_def
  mock_serializers_def transport_call_def logger_call_def envelope_def settle_def
  host_answers_def js_or_def Let_def

theorem invoke_rethrows_witness:
  "serverAndClient mock_connected = Some \<lparr>ident = 0, lastId = 0\<rparr>
   \<and> fst (transport_send (mock_host None (Resolved ()) (Rejected (JError ''send failed'')) None)
           (envelope 1 ''account.receive'' (JObj [(''accountId'', JStr ''acc-1'')])) 0)
       = Rejected (JError ''send failed'')
   \<and> fst (private_request (mock_host None (Resolved ()) (Rejected (JError ''send failed'')) None)
           ''account.receive'' (JObj [(''accountId'', JStr ''acc-1'')]) JUndefined mock_connected)
       = Rejected (JError ''send failed'')
   \<and> logger (snd (private_request
           (mock_host None (Resolved ()) (Rejected (JError ''send failed'')) None)
           ''account.receive'' (JObj [(''accountId'', JStr ''acc-1'')]) JUndefined mock_connected))
       = [(LevelLog, ''connected'', [TransportRef]),
          (LevelLog, ''request - account.receive'',
             [Val (JObj [(''accountId'', JStr ''acc-1'')]), Val JUndefined]),
          (LevelWarn, ''error - account.receive'',
             [Val (JObj [(''accountId'', JStr ''acc-1'')]), Val JUndefined])]
   \<and> host_answers
         (mock_host None (Resolved ()) (Resolved ()) (Some (ErrorResponse (JError ''User denied''))))
         mock_connected ''account.receive'' (JObj [(''accountId'', JStr ''acc-1'')])
         (ErrorResponse (JError ''User denied''))
   \<and> fst (private_request
           (mock_host None (Resolved ()) (Resolved ()) (Some (ErrorResponse (JError ''User denied''))))
           ''account.receive'' (JObj [(''accountId'', JStr ''acc-1'')]) JUndefined mock_connected)
       = Rejected (JError ''User denied'')
   \<and> host_answers
         (mock_host None (Resolved ()) (Resolved ()) (Some (Result (JStr ''0xABC''))))
         mock_connected ''account.receive'' (JObj [(''accountId'', JStr ''acc-1'')])
         (Result (JStr ''0xABC''))
   \<and> fst (private_request
           (mock_host None (Resolved ()) (Resolved ()) (Some (Result (JStr ''0xABC''))))
           ''account.receive'' (JObj [(''accountId'', JStr ''acc-1'')]) JUndefined mock_connected)
       = Resolved (JStr ''0xABC'')"
proof -
  have s: "serverAndClient mock_connected = Some \<lparr>ident = 0, lastId = 0\<rparr>"
    by (simp add: mock_connected_eq)
  show ?thesis
    using s
      invoke_rethrows [OF s, of "mock_host None (Resolved ()) (Rejected (JError ''send failed'')) None"
        "''account.receive''" "JObj [(''accountId'', JStr ''acc-1'')]" JUndefined]
      invoke_rethrows [OF s, of
        "mock_host None (Resolved ()) (Resolved ()) (Some (ErrorResponse (JError ''User denied'')))"
        "''account.receive''" "JObj [(''accountId'', JStr ''acc-1'')]" JUndefined]
      invoke_rethrows [OF s, of
        "mock_host None (Resolved ()) (Resolved ()) (Some (Result (JStr ''0xABC'')))"
        "''account.receive''" "JObj [(''accountId'', JStr ''acc-1'')]" JUndefined]
    by (simp add: mock_eval private_request_def JSONRPCServerAndClient_request_def)
qed

section \<open>The connection lifecycle\<close>

lemma connect_returns:
  assumes "fst (transport_connect h (channel (transport w))) = None"
  shows "fst (connect h w) = Returns ()"
    and "serverAndClient (snd (connect h w)) = Some \<lparr>ident = sessionsCreated w, lastId = 0\<rparr>"
    and "logger (snd (connect h w)) = logger w @ [(LevelLog, ''connected'', [TransportRef])]"
  using assms by (simp_all add: connect_def Let_def)

lemma connect_throws:
  assumes "fst (transport_connect h (channel (transport w))) = Some e"
  shows "fst (connect h w) = Throws e"
    and "serverAndClient (snd (connect h w)) = serverAndClient w"
    and "logger (snd (connect h w)) = logger w"
  using assms by (simp_all add: connect_def Let_def)

lemma connect_transport:
  "onMessage (transport (snd (connect h w))) = Some (ReceiveAndSend (sessionsCreated w))"
  "calls (transport (snd (connect h w))) = calls (transport w) @ [TConnect]"
  "channel (transport (snd (connect h w))) = snd (transport_connect h (channel (transport w)))"
  "sessionsCreated (snd (connect h w)) = sessionsCreated w + 1"
  by (simp_all add: connect_def Let_def split: option.splits)

text \<open>The facade only ever holds a session it has constructed.\<close>

lemma session_known_constructor: "session_known (constructor t lg)"
  by (simp add: session_known_def constructor_def)

lemma session_known_connect: "session_known w \<Longrightarrow> session_known (snd (connect h w))"
  by (auto simp add: session_known_def connect_def Let_def split: option.splits)

lemma session_known_disconnect: "session_known (snd (disconnect h w))"
  by (simp add: session_known_def disconnect_fields)

lemma session_known_private_request:
  "session_known w \<Longrightarrow> session_known (snd (private_request h m p c w))"
  by (auto simp add: session_known_def private_request_def Let_def request_fields
      split: option.splits promise.splits)

text \<open>
  C2. When the facade already holds a session (one it constructed) and the transport's
  connect returns, \<open>connect\<close> returns without throwing: the session field holds a newly
  constructed session, which has given out no call identifier and whose identity differs
  from that of the session it replaces; the transport's handler is the closure over the
  new session; the transport has received one more call, its connect; the logger has
  received the entry "connected"; and a request made next goes out on the same transport
  with the first call identifier of the new session.
\<close>

theorem connect_while_connected:
  assumes "serverAndClient w = Some s"
    and "session_known w"
    and "fst (transport_connect h (channel (transport w))) = None"
  shows "fst (connect h w) = Returns ()
     \<and> serverAndClient (snd (connect h w)) = Some \<lparr>ident = sessionsCreated w, lastId = 0\<rparr>
     \<and> sessionsCreated w \<noteq> ident s
     \<and> onMessage (transport (snd (connect h w))) = Some (ReceiveAndSend (sessionsCreated w))
     \<and> calls (transport (snd (connect h w))) = calls (transport w) @ [TConnect]
     \<and> logger (snd (connect h w)) = logger w @ [(LevelLog, ''connected'', [TransportRef])]
     \<and> calls (transport (snd (private_request h method params clientParams (snd (connect h w)))))
         = calls (transport w) @ [TConnect, TSend (envelope 1 method params)]"
proof -
  have fresh: "sessionsCreated w \<noteq> ident s"
    using assms(1,2) by (simp add: session_known_def)
  have "calls (transport (snd (private_request h method params clientParams (snd (connect h w)))))
          = calls (transport (snd (connect h w))) @ [TSend (envelope 1 method params)]"
    using private_request_calls [OF connect_returns(2) [OF assms(3)]] by simp
  then show ?thesis
    using fresh by (simp add: connect_returns [OF assms(3)] connect_transport)
qed

theorem connect_while_connected_witness:
  "serverAndClient mock_connected = Some \<lparr>ident = 0, lastId = 0\<rparr>
   \<and> session_known mock_connected
   \<and> fst (transport_connect (mock_host None (Resolved ()) (Resolved ()) None)
           (channel (transport mock_connected))) = None
   \<and> fst (connect (mock_host None (Resolved ()) (Resolved ()) None) mock_connected) = Returns ()
   \<and> serverAndClient (snd (connect (mock_host None (Resolved ()) (Resolved ()) None) mock_connected))
       = Some \<lparr>ident = 1, lastId = 0\<rparr>
   \<and> transport (snd (connect (mock_host None (Resolved ()) (Resolved ()) None) mock_connected))
       = \<lparr>channel = 0, onMessage = Some (ReceiveAndSend 1), calls = [TConnect, TConnect]\<rparr>
   \<and> logger (snd (connect (mock_host None (Resolved ()) (Resolved ()) None) mock_connected))
       = [(LevelLog, ''connected'', [TransportRef]), (LevelLog, ''connected'', [TransportRef])]"
proof -
  have s: "serverAndClient mock_connected = Some \<lparr>ident = 0, lastId = 0\<rparr>"
    by (simp add: mock_connected_eq)
  have k: "session_known mock_connected"
    by (simp add: session_known_def mock_connected_eq)
  have c: "fst (transport_connect (mock_host None (Resolved ()) (Resolved ()) None)
             (channel (transport mock_connected))) = None"
    by (simp add: mock_host_def)
  show ?thesis
    using s k c connect_while_connected [OF s k c, of "''account.list''" JUndefined JUndefined]
    by (simp add: mock_eval connect_def)
qed

text \<open>
  C8. When the transport's connect throws \<open>e\<close>, \<open>connect\<close> throws \<open>e\<close> and the session
  field is what it was before the call: the assignment and the log entry "connected"
  come after the transport's connect and are not reached. In particular a facade that
  held no session holds none afterwards, and its next request is rejected with the
  not-connected error without a call on the transport.
\<close>

theorem connect_failure_installs_nothing:
  assumes "fst (transport_connect h (channel (transport w))) = Some e"
  shows "fst (connect h w) = Throws e
     \<and> serverAndClient (snd (connect h w)) = serverAndClient w
     \<and> logger (snd (connect h w)) = logger w
     \<and> calls (transport (snd (connect h w))) = calls (transport w) @ [TConnect]
     \<and> (serverAndClient w = None \<longrightarrow>
          fst (private_request h method params clientParams (snd (connect h w)))
            = Rejected (JError ''Ledger Live API not connected'')
          \<and> transport (snd (private_request h method params clientParams (snd (connect h w))))
            = transport (snd (connect h w)))"
  using assms by (simp add: connect_throws connect_transport private_request_None)

theorem connect_failure_installs_nothing_witness:
  "fst (transport_connect (mock_host (Some (JError ''channel closed'')) (Resolved ()) (Resolved ()) None)
         (channel (transport mock_api))) = Some (JError ''channel closed'')
   \<and> serverAndClient mock_api = None
   \<and> fst (connect (mock_host (Some (JError ''channel closed'')) (Resolved ()) (Resolved ()) None)
            mock_api) = Throws (JError ''channel closed'')
   \<and> serverAndClient
        (snd (connect (mock_host (Some (JError ''channel closed'')) (Resolved ()) (Resolved ()) None)
           mock_api)) = None
   \<and> fst (private_request
            (mock_host (Some (JError ''channel closed'')) (Resolved ()) (Resolved ()) None)
            ''account.list'' JUndefined JUndefined
            (snd (connect (mock_host (Some (JError ''channel closed'')) (Resolved ()) (Resolved ()) None)
               mock_api)))
       = Rejected (JError ''Ledger Live API not connected'')
   \<and> calls (transport (snd (private_request
            (mock_host (Some (JError ''channel closed'')) (Resolved ()) (Resolved ()) None)
            ''account.list'' JUndefined JUndefined
            (snd (connect (mock_host (Some (JError ''channel closed'')) (Resolved ()) (Resolved ()) None)
               mock_api)))))
       = [TConnect]"
proof -
  have c: "fst (transport_connect
                 (mock_host (Some (JError ''channel closed'')) (Resolved ()) (Resolved ()) None)
                 (channel (transport mock_api))) = Some (JError ''channel closed'')"
    by (simp add: mock_host_def)
  show ?thesis
    using c connect_failure_installs_nothing [OF c, of "''account.list''" JUndefined JUndefined]
    by (simp add: mock_eval connect_def private_request_def)
qed

text \<open>
  C10. In every state of the facade, with or without a session, \<open>disconnect\<close> makes
  exactly one call on the transport, its disconnect, and leaves no session. It has no
  failure of its own: it ends exactly as the transport's disconnect ends. When that
  resolves, \<open>disconnect\<close> resolves and the logger has received the entry "disconnected".
\<close>

theorem disconnect_in_every_state:
  "calls (transport (snd (disconnect h w))) = calls (transport w) @ [TDisconnect]
   \<and> serverAndClient (snd (disconnect h w)) = None
   \<and> fst (disconnect h w) = fst (transport_disconnect h (channel (transport w)))
   \<and> (fst (transport_disconnect h (channel (transport w))) = Resolved () \<longrightarrow>
        fst (disconnect h w) = Resolved ()
        \<and> logger (snd (disconnect h w))
            = logger w @ [(LevelLog, ''disconnected'', [TransportRef])])"
  by (simp add: disconnect_fields) (simp add: disconnect_def Let_def)

theorem disconnect_in_every_state_witness:
  "serverAndClient mock_api = None
   \<and> fst (transport_disconnect (mock_host None (Resolved ()) (Resolved ()) None)
           (channel (transport mock_api))) = Resolved ()
   \<and> disconnect (mock_host None (Resolved ()) (Resolved ()) None) mock_api
       = (Resolved (),
          \<lparr>transport = \<lparr>channel = 0, onMessage = None, calls = [TDisconnect]\<rparr>,
           logger = [(LevelLog, ''disconnected'', [TransportRef])],
           serverAndClient = None, sessionsCreated = 0\<rparr>)
   \<and> fst (disconnect (mock_host None (Resolved ()) (Resolved ()) None)
           (snd (disconnect (mock_host None (Resolved ()) (Resolved ()) None) mock_connected)))
       = Resolved ()
   \<and> calls (transport (snd (disconnect (mock_host None (Resolved ()) (Resolved ()) None)
           (snd (disconnect (mock_host None (Resolved ()) (Resolved ()) None) mock_connected)))))
       = [TConnect, TDisconnect, TDisconnect]"
  using disconnect_in_every_state [of "mock_host None (Resolved ()) (Resolved ()) None" mock_api]
    disconnect_in_every_state [of "mock_host None (Resolved ()) (Resolved ()) None"
      "snd (disconnect (mock_host None (Resolved ()) (Resolved ()) None) mock_connected)"]
  by (simp add: mock_eval disconnect_def)

section \<open>The operations that reach the host\<close>

lemma facade_state:
  "snd (requestAccount h sz params w)
     = snd (private_request h ''account.request'' (js_or params (JObj [])) JUndefined w)"
  "snd (listAccounts h sz w) = snd (private_request h ''account.list'' JUndefined JUndefined w)"
  "snd (signTransaction h sz accountId transaction params w)
     = snd (private_request h ''transaction.sign''
              (JObj [(''accountId'', JStr accountId),
                     (''transaction'', serializeTransaction sz transaction),
                     (''params'', js_or params (JObj []))]) JUndefined w)"
  by (simp_all add: requestAccount_def listAccounts_def signTransaction_def Let_def)

text \<open>
  C4. While a session exists, for every account identifier, transaction and optional
  parameters, \<open>signTransaction\<close> makes one call on the transport: it sends the envelope
  of method "transaction.sign" whose parameters are the object with the fields
  accountId, transaction and params, in which transaction is \<open>serializeTransaction\<close> of
  the given transaction. When the request resolves with a raw result, in particular when
  the host answers with a result, the operation resolves with
  \<open>deserializeSignedTransaction\<close> of that raw result.
\<close>

theorem signTransaction_serializes:
  assumes "serverAndClient w = Some s"
  shows "calls (transport (snd (signTransaction h sz accountId transaction params w)))
       = calls (transport w) @
           [TSend (envelope (lastId s + 1) ''transaction.sign''
              (JObj [(''accountId'', JStr accountId),
                     (''transaction'', serializeTransaction sz transaction),
                     (''params'', js_or params (JObj []))]))]
     \<and> (\<forall>raw. fst (private_request h ''transaction.sign''
                    (JObj [(''accountId'', JStr accountId),
                           (''transaction'', serializeTransaction sz transaction),
                           (''params'', js_or params (JObj []))]) JUndefined w) = Resolved raw \<longrightarrow>
            fst (signTransaction h sz accountId transaction params w)
              = Resolved (deserializeSignedTransaction sz raw))
     \<and> (\<forall>raw. host_answers h w ''transaction.sign''
                    (JObj [(''accountId'', JStr accountId),
                           (''transaction'', serializeTransaction sz transaction),
                           (''params'', js_or params (JObj []))]) (Result raw) \<longrightarrow>
            fst (signTransaction h sz accountId transaction params w)
              = Resolved (deserializeSignedTransaction sz raw))"
proof (intro conjI allI impI)
  show "calls (transport (snd (signTransaction h sz accountId transaction params w)))
       = calls (transport w) @
           [TSend (envelope (lastId s + 1) ''transaction.sign''
              (JObj [(''accountId'', JStr accountId),
                     (''transaction'', serializeTransaction sz transaction),
                     (''params'', js_or params (JObj []))]))]"
    using assms by (simp add: facade_state private_request_calls)
next
  fix raw
  assume "fst (private_request h ''transaction.sign''
                 (JObj [(''accountId'', JStr accountId),
                        (''transaction'', serializeTransaction sz transaction),
                        (''params'', js_or params (JObj []))]) JUndefined w) = Resolved raw"
  then show "fst (signTransaction h sz accountId transaction params w)
               = Resolved (deserializeSignedTransaction sz raw)"
    by (simp add: signTransaction_def Let_def)
next
  fix raw
  assume "host_answers h w ''transaction.sign''
            (JObj [(''accountId'', JStr accountId),
                   (''transaction'', serializeTransaction sz transaction),
                   (''params'', js_or params (JObj []))]) (Result raw)"
  then have "fst (private_request h ''transaction.sign''
                 (JObj [(''accountId'', JStr accountId),
                        (''transaction'', serializeTransaction sz transaction),
                        (''params'', js_or params (JObj []))]) JUndefined w) = Resolved raw"
    by (rule private_request_result)
  then show "fst (signTransaction h sz accountId transaction params w)
               = Resolved (deserializeSignedTransaction sz raw)"
    by (simp add: signTransaction_def Let_def)
qed

theorem signTransaction_serializes_witness:
  "serverAndClient mock_connected = Some \<lparr>ident = 0, lastId = 0\<rparr>
   \<and> host_answers (mock_host None (Resolved ()) (Resolved ()) (Some (Result (JStr ''signed''))))
        mock_connected ''transaction.sign''
        (JObj [(''accountId'', JStr ''acc-1''),
               (''transaction'', JObj [(''recipient'', JStr ''bob'')]),
               (''params'', JObj [(''useApp'', JStr ''Bitcoin'')])])
        (Result (JStr ''signed''))
   \<and> calls (transport (snd (signTransaction
        (mock_host None (Resolved ()) (Resolved ()) (Some (Result (JStr ''signed''))))
        mock_serializers ''acc-1'' ''bob'' (JObj [(''useApp'', JStr ''Bitcoin'')]) mock_connected)))
       = [TConnect,
          TSend (JObj [(''jsonrpc'', JStr ''2.0''), (''id'', JNum 1),
                       (''method'', JStr ''transaction.sign''),
                       (''params'',
                          JObj [(''accountId'', JStr ''acc-1''),
                                (''transaction'', JObj [(''recipient'', JStr ''bob'')]),
                                (''params'', JObj [(''useApp'', JStr ''Bitcoin'')])])])]
   \<and> fst (signTransaction
        (mock_host None (Resolved ()) (Resolved ()) (Some (Result (JStr ''signed''))))
        mock_serializers ''acc-1'' ''bob'' (JObj [(''useApp'', JStr ''Bitcoin'')]) mock_connected)
       = Resolved (''SignedTransaction'', JStr ''signed'')"
proof -
  have s: "serverAndClient mock_connected = Some \<lparr>ident = 0, lastId = 0\<rparr>"
    by (simp add: mock_connected_eq)
  show ?thesis
    using s signTransaction_serializes [OF s,
        of "mock_host None (Resolved ()) (Resolved ()) (Some (Result (JStr ''signed'')))"
           mock_serializers "''acc-1''" "''bob''" "JObj [(''useApp'', JStr ''Bitcoin'')]"]
    by (simp add: mock_eval)
qed

text \<open>
  C5. When the host answers the request "account.list" with an array of raw account
  records, \<open>listAccounts\<close> resolves with the list obtained by applying
  \<open>deserializeAccount\<close> to each record: it has as many elements as the array, and its
  element at each position is \<open>deserializeAccount\<close> of the record at that position.
\<close>

theorem listAccounts_preserves_order:
  assumes "host_answers h w ''account.list'' JUndefined (Result (JArr raws))"
  shows "fst (listAccounts h sz w) = Resolved (map (deserializeAccount sz) raws)
     \<and> (\<forall>accounts. fst (listAccounts h sz w) = Resolved accounts \<longrightarrow>
          length accounts = length raws
          \<and> (\<forall>i < length raws. accounts ! i = deserializeAccount sz (raws ! i)))"
proof -
  have "fst (private_request h ''account.list'' JUndefined JUndefined w) = Resolved (JArr raws)"
    using assms by (rule private_request_result)
  then have "fst (listAccounts h sz w) = Resolved (map (deserializeAccount sz) raws)"
    by (simp add: listAccounts_def Let_def)
  then show ?thesis by auto
qed

theorem listAccounts_preserves_order_witness:
  "host_answers
      (mock_host None (Resolved ()) (Resolved ())
         (Some (Result (JArr [JStr ''a'', JStr ''b'', JStr ''c'']))))
      mock_connected ''account.list'' JUndefined (Result (JArr [JStr ''a'', JStr ''b'', JStr ''c'']))
   \<and> fst (listAccounts
        (mock_host None (Resolved ()) (Resolved ())
           (Some (Result (JArr [JStr ''a'', JStr ''b'', JStr ''c'']))))
        mock_serializers mock_connected)
       = Resolved [(''Account'', JStr ''a''), (''Account'', JStr ''b''), (''Account'', JStr ''c'')]"
proof -
  have a: "host_answers
      (mock_host None (Resolved ()) (Resolved ())
         (Some (Result (JArr [JStr ''a'', JStr ''b'', JStr ''c'']))))
      mock_connected ''account.list'' JUndefined (Result (JArr [JStr ''a'', JStr ''b'', JStr ''c'']))"
    by (simp add: mock_eval)
  show ?thesis
    using a listAccounts_preserves_order [OF a, of mock_serializers]
    by (simp add: mock_eval)
qed

text \<open>
  C9. While a session exists, the envelope that \<open>requestAccount\<close> and \<open>listCurrencies\<close>
  send has \<^verbatim>\<open>params || {}\<close> as its parameters, and the one \<open>signTransaction\<close> sends has
  it as the field params of its parameters. That value is the empty object when the
  argument is missing or falsy, and it is an object whenever the argument is missing,
  falsy or an object, which is what the parameter types admit.
\<close>

theorem params_default_to_empty_object:
  assumes "serverAndClient w = Some s"
  shows "calls (transport (snd (requestAccount h sz params w)))
       = calls (transport w) @
           [TSend (envelope (lastId s + 1) ''account.request'' (js_or params (JObj [])))]
     \<and> calls (transport (snd (listCurrencies h params w)))
       = calls (transport w) @
           [TSend (envelope (lastId s + 1) ''currency.list'' (js_or params (JObj [])))]
     \<and> calls (transport (snd (signTransaction h sz accountId transaction params w)))
       = calls (transport w) @
           [TSend (envelope (lastId s + 1) ''transaction.sign''
              (JObj [(''accountId'', JStr accountId),
                     (''transaction'', serializeTransaction sz transaction),
                     (''params'', js_or params (JObj []))]))]
     \<and> js_or JUndefined (JObj []) = JObj []
     \<and> (\<not> truthy params \<longrightarrow> js_or params (JObj []) = JObj [])
     \<and> (\<not> truthy params \<or> is_object params \<longrightarrow> is_object (js_or params (JObj [])))"
  using assms
  by (auto simp add: facade_state listCurrencies_def private_request_calls js_or_def)

theorem params_default_to_empty_object_witness:
  "serverAndClient mock_connected = Some \<lparr>ident = 0, lastId = 0\<rparr>
   \<and> \<not> truthy JUndefined
   \<and> calls (transport (snd (requestAccount (mock_host None (Resolved ()) (Resolved ()) None)
        mock_serializers JUndefined mock_connected)))
       = [TConnect,
          TSend (JObj [(''jsonrpc'', JStr ''2.0''), (''id'', JNum 1),
                       (''method'', JStr ''account.request''), (''params'', JObj [])])]
   \<and> \<not> truthy JNull
   \<and> calls (transport (snd (listCurrencies (mock_host None (Resolved ()) (Resolved ()) None)
        JNull mock_connected)))
       = [TConnect,
          TSend (JObj [(''jsonrpc'', JStr ''2.0''), (''id'', JNum 1),
                       (''method'', JStr ''currency.list''), (''params'', JObj [])])]
   \<and> calls (transport (snd (signTransaction (mock_host None (Resolved ()) (Resolved ()) None)
        mock_serializers ''acc-1'' ''bob'' JUndefined mock_connected)))
       = [TConnect,
          TSend (JObj [(''jsonrpc'', JStr ''2.0''), (''id'', JNum 1),
                       (''method'', JStr ''transaction.sign''),
                       (''params'',
                          JObj [(''accountId'', JStr ''acc-1''),
                                (''transaction'', JObj [(''recipient'', JStr ''bob'')]),
                                (''params'', JObj [])])])]
   \<and> is_object (JObj [(''ticker'', JStr ''BTC'')])
   \<and> calls (transport (snd (listCurrencies (mock_host None (Resolved ()) (Resolved ()) None)
        (JObj [(''ticker'', JStr ''BTC'')]) mock_connected)))
       = [TConnect,
          TSend (JObj [(''jsonrpc'', JStr ''2.0''), (''id'', JNum 1),
                       (''method'', JStr ''currency.list''),
                       (''params'', JObj [(''ticker'', JStr ''BTC'')])])]"
proof -
  have s: "serverAndClient mock_connected = Some \<lparr>ident = 0, lastId = 0\<rparr>"
    by (simp add: mock_connected_eq)
  show ?thesis
    using s
      params_default_to_empty_object [OF s, of "mock_host None (Resolved ()) (Resolved ()) None"
        mock_serializers JUndefined "''acc-1''" "''bob''"]
      params_default_to_empty_object [OF s, of "mock_host None (Resolved ()) (Resolved ()) None"
        mock_serializers JNull "''acc-1''" "''bob''"]
      params_default_to_empty_object [OF s, of "mock_host None (Resolved ()) (Resolved ()) None"
        mock_serializers "JObj [(''ticker'', JStr ''BTC'')]" "''acc-1''" "''bob''"]
    by (simp add: mock_eval)
qed

section \<open>The placeholder operations\<close>

text \<open>
  C6. For all arguments and in every state of the facade, with or without a session,
  each of the eight placeholder operations is rejected with the error "Function is not
  implemented yet" and returns the facade as it was: no call on the transport, no log
  entry, no change of the session.
\<close>

theorem placeholders_fail:
  "estimateTransactionFees accountId transaction w
     = (Rejected (JError ''Function is not implemented yet''), w)
   \<and> synchronizeAccount accountId w = (Rejected (JError ''Function is not implemented yet''), w)
   \<and> initExchange exchangeType partnerName w
     = (Rejected (JError ''Function is not implemented yet''), w)
   \<and> completeExchange exchangePayload payloadSignature txFeesLevel w
     = (Rejected (JError ''Function is not implemented yet''), w)
   \<and> getDeviceInfo w = (Rejected (JError ''Function is not implemented yet''), w)
   \<and> listApps w = (Rejected (JError ''Function is not implemented yet''), w)
   \<and> bridgeApp appName handler w = (Rejected (JError ''Function is not implemented yet''), w)
   \<and> bridgeDashboard handler w = (Rejected (JError ''Function is not implemented yet''), w)"
  by (simp add: estimateTransactionFees_def synchronizeAccount_def initExchange_def
      completeExchange_def getDeviceInfo_def listApps_def bridgeApp_def bridgeDashboard_def)

end
